theory Spec2Isabelle
  imports Complex_Main
begin

section \<open>Expression Converter and Evaluator: the engine of script.js\<close>

text \<open>
  The class \<open>ExpressionConverter\<close> of \<open>script.js\<close> validates an infix string, converts it
  to postfix and prefix notation with two operator-stack loops, and evaluates postfix and
  prefix token strings over a number stack. This theory embeds those methods.

  Conventions of the embedding.
  \<^item> A JavaScript string is a \<open>string\<close>: a list of 8-bit characters, one per code unit.
  \<^item> A JavaScript array used as a stack (\<open>push\<close>/\<open>pop\<close>) is a list whose head is the top
    of the stack. The \<open>output\<close> array, which is only appended to, is a list in array
    order.
  \<^item> Every \<open>throw new Error(msg)\<close> is a value \<open>Inl e\<close>; the constructor of \<open>e\<close>
    stands for the message.
  \<^item> A JavaScript number is a \<open>jsnum\<close>: NaN, an infinity, or a finite double. Every
    parsed literal and every arithmetic result is rounded to the nearest double, ties to
    even, with overflow to an infinity and underflow to zero. The two zeros are one value:
    the only test the program makes on a number is \<open>operand2 === 0\<close>, which holds for
    both.
  \<^item> The lines pushed to \<open>this.steps\<close> are display text and are left out.
\<close>

subsection \<open>Errors\<close>

text \<open>
  One constructor for each \<open>throw\<close> of the source:
  \<^item> \<open>InvalidCharacter\<close>: "Invalid characters in expression. ..."
  \<^item> \<open>UnmatchedClosingParen\<close>: "Unmatched closing parenthesis"
  \<^item> \<open>UnmatchedOpeningParen\<close>: "Unmatched opening parenthesis"
  \<^item> \<open>ConsecutiveOperators\<close>: "Consecutive operators are not allowed"
  \<^item> \<open>InvalidBoundary\<close>: "Expression cannot start or end with +, *, or /"
  \<^item> \<open>EmptyParens\<close>: "Empty parentheses are not allowed"
  \<^item> \<open>InsufficientOperands\<close>: "Invalid postfix/prefix expression: insufficient operands"
  \<^item> \<open>UnboundVariable t\<close>: "Cannot evaluate expression with variables. Variable 't' ..."
  \<^item> \<open>MalformedExpression\<close>: "Invalid postfix/prefix expression: incorrect number of operators"
  \<^item> \<open>DivisionByZero\<close>: "Division by zero"
  \<^item> \<open>UnknownOperator t\<close>: "Unknown operator: t"
\<close>

datatype error =
    InvalidCharacter
  | UnmatchedClosingParen
  | UnmatchedOpeningParen
  | ConsecutiveOperators
  | InvalidBoundary
  | EmptyParens
  | InsufficientOperands
  | UnboundVariable string
  | MalformedExpression
  | DivisionByZero
  | UnknownOperator string

subsection \<open>Numbers\<close>

text \<open>
  A number is NaN, an infinity, or a finite double, held as the rational it denotes.
  \<open>toDouble\<close> rounds a rational to the nearest double, ties to the even significand:
  a double is a multiple of \<open>2 ^ k\<close>, where \<open>k\<close> is 52 below the binary exponent of the
  value and at least \<open>- 1074\<close>; a rounded magnitude of \<open>2 ^ 1024\<close> or more is an infinity.
\<close>

datatype jsnum = Fin rat | PInf | NInf | NaN

fun isNaN :: "jsnum \<Rightarrow> bool" where
  "isNaN NaN = True"
| "isNaN _ = False"

text \<open>The number of binary digits of a positive integer.\<close>

function bitLength :: "int \<Rightarrow> int" where
  "bitLength n = (if n \<le> 0 then 0 else 1 + bitLength (n div 2))"
  by pat_completeness auto
termination
  by (relation "measure nat") auto

declare bitLength.simps [simp del]

definition pow2 :: "int \<Rightarrow> rat" where
  "pow2 k = (if 0 \<le> k then 2 ^ nat k else 1 / 2 ^ nat (- k))"

text \<open>The binary exponent of a positive rational \<open>q\<close>: the \<open>e\<close> with \<open>2 ^ e \<le> q < 2 ^ (e + 1)\<close>.\<close>

definition ilog2 :: "rat \<Rightarrow> int" where
  "ilog2 q = (if 1 \<le> q then bitLength \<lfloor>q\<rfloor> - 1 else - bitLength (\<lceil>1 / q\<rceil> - 1))"

definition roundHalfEven :: "rat \<Rightarrow> int" where
  "roundHalfEven x =
     (let f = \<lfloor>x\<rfloor>; d = x - of_int f
      in if d < 1 / 2 then f else if 1 / 2 < d then f + 1 else if even f then f else f + 1)"

definition quantumExp :: "rat \<Rightarrow> int" where
  "quantumExp q = max (ilog2 \<bar>q\<bar> - 52) (- 1074)"

definition toDouble :: "rat \<Rightarrow> jsnum" where
  "toDouble q =
     (if q = 0 then Fin 0
      else
        let k = quantumExp q;
            v = of_int (roundHalfEven (q / pow2 k)) * pow2 k
        in if v \<noteq> 0 \<and> 1024 \<le> ilog2 \<bar>v\<bar> then (if 0 < v then PInf else NInf)
           else Fin v)"

fun js_neg :: "jsnum \<Rightarrow> jsnum" where
  "js_neg (Fin a) = Fin (- a)"
| "js_neg PInf = NInf"
| "js_neg NInf = PInf"
| "js_neg NaN = NaN"

text \<open>The arithmetic operators give the exact result, rounded.\<close>

fun js_add :: "jsnum \<Rightarrow> jsnum \<Rightarrow> jsnum" where
  "js_add NaN _ = NaN"
| "js_add _ NaN = NaN"
| "js_add (Fin a) (Fin b) = toDouble (a + b)"
| "js_add PInf NInf = NaN"
| "js_add NInf PInf = NaN"
| "js_add PInf _ = PInf"
| "js_add _ PInf = PInf"
| "js_add NInf _ = NInf"
| "js_add _ NInf = NInf"

definition js_sub :: "jsnum \<Rightarrow> jsnum \<Rightarrow> jsnum" where
  "js_sub a b = js_add a (js_neg b)"

text \<open>The sign of a number that is not NaN: \<open>-1\<close>, \<open>0\<close> or \<open>1\<close>.\<close>

fun js_sgn :: "jsnum \<Rightarrow> int" where
  "js_sgn (Fin a) = (if a < 0 then - 1 else if a = 0 then 0 else 1)"
| "js_sgn PInf = 1"
| "js_sgn NInf = - 1"
| "js_sgn NaN = 0"

definition signed_inf :: "int \<Rightarrow> jsnum" where
  "signed_inf s = (if s < 0 then NInf else PInf)"

fun js_mul :: "jsnum \<Rightarrow> jsnum \<Rightarrow> jsnum" where
  "js_mul NaN _ = NaN"
| "js_mul _ NaN = NaN"
| "js_mul (Fin a) (Fin b) = toDouble (a * b)"
| "js_mul a b = (if js_sgn a * js_sgn b = 0 then NaN else signed_inf (js_sgn a * js_sgn b))"

text \<open>
  Division as \<open>performOperation\<close> uses it: the divisor is never zero there, since a zero
  divisor throws first. The zero-divisor equations are written out for totality only.
\<close>

fun js_div :: "jsnum \<Rightarrow> jsnum \<Rightarrow> jsnum" where
  "js_div NaN _ = NaN"
| "js_div _ NaN = NaN"
| "js_div (Fin a) (Fin b) =
     (if b = 0 then (if a = 0 then NaN else signed_inf (js_sgn (Fin a)))
      else toDouble (a / b))"
| "js_div (Fin a) _ = Fin 0"
| "js_div a (Fin b) = signed_inf (js_sgn a * (if b < 0 then - 1 else 1))"
| "js_div _ _ = NaN"

subsection \<open>Character classes and string helpers\<close>

definition isDigit :: "char \<Rightarrow> bool" where
  "isDigit c = (c \<in> set ''0123456789'')"

definition isLetter :: "char \<Rightarrow> bool" where
  "isLetter c = (c \<in> set ''abcdefghijklmnopqrstuvwxyzABCDEFGHIJKLMNOPQRSTUVWXYZ'')"

text \<open>\<open>String.prototype.split(' ')\<close>: the pieces between single spaces, empty ones kept.\<close>

fun split_sp :: "string \<Rightarrow> string list" where
  "split_sp [] = [[]]"
| "split_sp (c # cs) =
     (if c = CHR '' '' then [] # split_sp cs
      else (case split_sp cs of [] \<Rightarrow> [[c]] | t # ts \<Rightarrow> (c # t) # ts))"

text \<open>\<open>Array.prototype.join(' ')\<close>.\<close>

fun join_sp :: "string list \<Rightarrow> string" where
  "join_sp [] = []"
| "join_sp [t] = t"
| "join_sp (t # u # ts) = t @ CHR '' '' # join_sp (u # ts)"

subsection \<open>parseFloat\<close>

text \<open>
  \<open>parseFloat\<close> skips leading white space and reads the longest prefix that is a decimal
  literal: an optional sign, then \<open>Infinity\<close>, or digits with an optional fraction, or a
  fraction alone, then an optional exponent (taken only when it has a digit). The result
  is the decimal value of that prefix, rounded to a double. With no such prefix the result
  is NaN.
\<close>

definition isWhiteSpace :: "char \<Rightarrow> bool" where
  "isWhiteSpace c = (of_char c \<in> set [9, 10, 11, 12, 13, 32, 160 :: nat])"

definition digitsValue :: "string \<Rightarrow> int" where
  "digitsValue ds = foldl (\<lambda>n d. 10 * n + (of_char d - 48)) 0 ds"

definition scale10 :: "rat \<Rightarrow> int \<Rightarrow> rat" where
  "scale10 m e = (if 0 \<le> e then m * 10 ^ nat e else m / 10 ^ nat (- e))"

definition exponentPart :: "string \<Rightarrow> int" where
  "exponentPart s =
     (case s of
        [] \<Rightarrow> 0
      | c # r \<Rightarrow>
          if c = CHR ''e'' \<or> c = CHR ''E'' then
            (case r of
               [] \<Rightarrow> 0
             | d # r' \<Rightarrow>
                 if d = CHR ''-'' then - digitsValue (takeWhile isDigit r')
                 else if d = CHR ''+'' then digitsValue (takeWhile isDigit r')
                 else digitsValue (takeWhile isDigit r))
          else 0)"

definition unsignedLiteral :: "string \<Rightarrow> jsnum" where
  "unsignedLiteral u =
     (if take 8 u = ''Infinity'' then PInf
      else
        let ip = takeWhile isDigit u;
            r1 = dropWhile isDigit u;
            dotted = (r1 \<noteq> [] \<and> hd r1 = CHR ''.'');
            fp = (if dotted then takeWhile isDigit (tl r1) else []);
            r2 = (if dotted then dropWhile isDigit (tl r1) else r1)
        in if ip = [] \<and> fp = [] then NaN
           else toDouble (scale10 (of_int (digitsValue (ip @ fp)))
                            (exponentPart r2 - int (length fp))))"

definition parseFloat :: "string \<Rightarrow> jsnum" where
  "parseFloat s =
     (case dropWhile isWhiteSpace s of
        [] \<Rightarrow> NaN
      | c # r \<Rightarrow>
          if c = CHR ''-'' then js_neg (unsignedLiteral r)
          else if c = CHR ''+'' then unsignedLiteral r
          else unsignedLiteral (c # r))"

subsection \<open>The operator table\<close>

text \<open>
  \<^verbatim>\<open>this.operators = { '+': { precedence: 1, associativity: 'left' }, ... }\<close>
\<close>

record opinfo =
  precedence :: nat
  associativity :: string

definition operators :: "string \<rightharpoonup> opinfo" where
  "operators = map_of
     [(''+'', \<lparr>precedence = 1, associativity = ''left''\<rparr>),
      (''-'', \<lparr>precedence = 1, associativity = ''left''\<rparr>),
      (''*'', \<lparr>precedence = 2, associativity = ''left''\<rparr>),
      (''/'', \<lparr>precedence = 2, associativity = ''left''\<rparr>)]"

text \<open>
  The table is an object literal, so \<open>key in this.operators\<close> also holds for the property
  names it inherits from \<open>Object.prototype\<close>.
\<close>

definition inheritedNames :: "string list" where
  "inheritedNames =
     [''constructor'', ''hasOwnProperty'', ''isPrototypeOf'', ''propertyIsEnumerable'',
      ''toLocaleString'', ''toString'', ''valueOf'', ''__proto__'',
      ''__defineGetter__'', ''__defineSetter__'', ''__lookupGetter__'', ''__lookupSetter__'']"

text \<open>\<^verbatim>\<open>isOperator(char) { return char in this.operators; }\<close>\<close>

definition isOperator :: "string \<Rightarrow> bool" where
  "isOperator t = (t \<in> dom operators \<or> t \<in> set inheritedNames)"

text \<open>\<^verbatim>\<open>isOperand(char) { return /[0-9a-zA-Z]/.test(char); }\<close>, on one character.\<close>

definition isOperand :: "char \<Rightarrow> bool" where
  "isOperand c = (isDigit c \<or> isLetter c)"

text \<open>\<^verbatim>\<open>getPrecedence(op) { return this.operators[op]?.precedence || 0; }\<close>\<close>

definition getPrecedence :: "string \<Rightarrow> nat" where
  "getPrecedence op = (case operators op of None \<Rightarrow> 0 | Some i \<Rightarrow> precedence i)"

text \<open>\<^verbatim>\<open>isLeftAssociative(op) { return this.operators[op]?.associativity === 'left'; }\<close>\<close>

definition isLeftAssociative :: "string \<Rightarrow> bool" where
  "isLeftAssociative op =
     (case operators op of None \<Rightarrow> False | Some i \<Rightarrow> associativity i = ''left'')"

subsection \<open>validateExpression\<close>

text \<open>The class of \<^verbatim>\<open>/^[a-zA-Z0-9+\-*/().]+$/\<close>.\<close>

definition validChar :: "char \<Rightarrow> bool" where
  "validChar c = (isLetter c \<or> isDigit c \<or> c \<in> set ''+-*/().'')"

text \<open>The class \<^verbatim>\<open>[+\-*/]\<close> and the class \<^verbatim>\<open>[+*/]\<close>.\<close>

definition opChar :: "char \<Rightarrow> bool" where
  "opChar c = (c \<in> set ''+-*/'')"

definition edgeChar :: "char \<Rightarrow> bool" where
  "edgeChar c = (c \<in> set ''+*/'')"

text \<open>
  The parenthesis loop, from the balance so far: it throws as soon as the balance is
  negative and otherwise returns the final balance.
\<close>

fun balanceScan :: "int \<Rightarrow> string \<Rightarrow> error + int" where
  "balanceScan b [] = Inr b"
| "balanceScan b (c # cs) =
     (let b' = (if c = CHR ''('' then b + 1 else if c = CHR '')'' then b - 1 else b)
      in if b' < 0 then Inl UnmatchedClosingParen else balanceScan b' cs)"

text \<open>\<^verbatim>\<open>/[+\-*/]{2,}/.test(expression)\<close>: two operator characters side by side.\<close>

fun consecutiveOps :: "string \<Rightarrow> bool" where
  "consecutiveOps (a # b # cs) = ((opChar a \<and> opChar b) \<or> consecutiveOps (b # cs))"
| "consecutiveOps _ = False"

text \<open>\<^verbatim>\<open>/[+*/]$/.test(expression) || /^[+*/]/.test(expression)\<close>\<close>

definition badBoundary :: "string \<Rightarrow> bool" where
  "badBoundary e = (e \<noteq> [] \<and> (edgeChar (last e) \<or> edgeChar (hd e)))"

text \<open>\<^verbatim>\<open>/\(\)/.test(expression)\<close>\<close>

fun emptyParens :: "string \<Rightarrow> bool" where
  "emptyParens (a # b # cs) = ((a = CHR ''('' \<and> b = CHR '')'') \<or> emptyParens (b # cs))"
| "emptyParens _ = False"

definition validateExpression :: "string \<Rightarrow> error + unit" where
  "validateExpression expression =
     (if \<not> (expression \<noteq> [] \<and> list_all validChar expression) then Inl InvalidCharacter
      else case balanceScan 0 expression of
        Inl e \<Rightarrow> Inl e
      | Inr balance \<Rightarrow>
          if balance \<noteq> 0 then Inl UnmatchedOpeningParen
          else if consecutiveOps expression then Inl ConsecutiveOperators
          else if badBoundary expression then Inl InvalidBoundary
          else if emptyParens expression then Inl EmptyParens
          else Inr ())"

subsection \<open>infixToPostfix\<close>

text \<open>
  The inner loop of the \<open>)\<close> branch: pop operators to the output until the stack is empty
  or its top is \<open>(\<close>.
\<close>

fun popToParen :: "string list \<Rightarrow> string list \<Rightarrow> string list \<times> string list" where
  "popToParen output [] = (output, [])"
| "popToParen output (topOp # stack) =
     (if topOp \<noteq> ''('' then popToParen (output @ [topOp]) stack else (output, topOp # stack))"

text \<open>\<^verbatim>\<open>if (operatorStack.length > 0) { operatorStack.pop(); }\<close>\<close>

fun dropParen :: "string list \<Rightarrow> string list" where
  "dropParen [] = []"
| "dropParen (topOp # stack) = stack"

text \<open>
  The inner loop of the operator branch of \<open>infixToPostfix\<close>: pop while the top is not
  \<open>(\<close> and has higher precedence, or equal precedence with a left-associative \<open>char\<close>.
\<close>

fun popHigher :: "string \<Rightarrow> string list \<Rightarrow> string list \<Rightarrow> string list \<times> string list" where
  "popHigher char output [] = (output, [])"
| "popHigher char output (topOp # stack) =
     (if topOp \<noteq> ''('' \<and>
         (getPrecedence topOp > getPrecedence char \<or>
          (getPrecedence topOp = getPrecedence char \<and> isLeftAssociative char))
      then popHigher char (output @ [topOp]) stack
      else (output, topOp # stack))"

text \<open>
  The \<open>for\<close> loop over the input, on the characters not yet read. An operand character
  starts a token that takes the whole run of operand characters.
\<close>

function postfixLoop :: "string \<Rightarrow> string list \<Rightarrow> string list \<Rightarrow> string list \<times> string list" where
  "postfixLoop [] output stack = (output, stack)"
| "postfixLoop (c # cs) output stack =
     (if isOperand c then
        postfixLoop (dropWhile isOperand cs) (output @ [c # takeWhile isOperand cs]) stack
      else if c = CHR ''('' then postfixLoop cs output ([c] # stack)
      else if c = CHR '')'' then
        (case popToParen output stack of
           (output', stack') \<Rightarrow> postfixLoop cs output' (dropParen stack'))
      else if isOperator [c] then
        (case popHigher [c] output stack of
           (output', stack') \<Rightarrow> postfixLoop cs output' ([c] # stack'))
      else postfixLoop cs output stack)"
  by pat_completeness auto
termination
  by (relation "measure (\<lambda>(s, output, stack). length s)")
     (auto simp: le_imp_less_Suc length_dropWhile_le)

text \<open>After the loop the remaining stack is popped to the output, top first.\<close>

definition infixToPostfix :: "string \<Rightarrow> string" where
  "infixToPostfix infix =
     (case postfixLoop infix [] [] of (output, stack) \<Rightarrow> join_sp (output @ stack))"

subsection \<open>infixToPrefix\<close>

text \<open>The operator branch of \<open>infixToPostfixForPrefix\<close> pops on \<open>>=\<close>.\<close>

fun popHigherEq :: "string \<Rightarrow> string list \<Rightarrow> string list \<Rightarrow> string list \<times> string list" where
  "popHigherEq char output [] = (output, [])"
| "popHigherEq char output (topOp # stack) =
     (if topOp \<noteq> ''('' \<and> getPrecedence topOp \<ge> getPrecedence char
      then popHigherEq char (output @ [topOp]) stack
      else (output, topOp # stack))"

function prefixLoop :: "string \<Rightarrow> string list \<Rightarrow> string list \<Rightarrow> string list \<times> string list" where
  "prefixLoop [] output stack = (output, stack)"
| "prefixLoop (c # cs) output stack =
     (if isOperand c then
        prefixLoop (dropWhile isOperand cs) (output @ [c # takeWhile isOperand cs]) stack
      else if c = CHR ''('' then prefixLoop cs output ([c] # stack)
      else if c = CHR '')'' then
        (case popToParen output stack of
           (output', stack') \<Rightarrow> prefixLoop cs output' (dropParen stack'))
      else if isOperator [c] then
        (case popHigherEq [c] output stack of
           (output', stack') \<Rightarrow> prefixLoop cs output' ([c] # stack'))
      else prefixLoop cs output stack)"
  by pat_completeness auto
termination
  by (relation "measure (\<lambda>(s, output, stack). length s)")
     (auto simp: le_imp_less_Suc length_dropWhile_le)

definition infixToPostfixForPrefix :: "string \<Rightarrow> string" where
  "infixToPostfixForPrefix infix =
     (case prefixLoop infix [] [] of (output, stack) \<Rightarrow> join_sp (output @ stack))"

text \<open>
  \<^verbatim>\<open>reversed.replace(/\(/g, 'TEMP').replace(/\)/g, '(').replace(/TEMP/g, ')')\<close>,
  one function for each \<open>replace\<close>.
\<close>

definition openToTEMP :: "string \<Rightarrow> string" where
  "openToTEMP s = concat (map (\<lambda>c. if c = CHR ''('' then ''TEMP'' else [c]) s)"

definition closeToOpen :: "string \<Rightarrow> string" where
  "closeToOpen s = map (\<lambda>c. if c = CHR '')'' then CHR ''('' else c) s"

fun TEMPToClose :: "string \<Rightarrow> string" where
  "TEMPToClose [] = []"
| "TEMPToClose (c # cs) =
     (if take 4 (c # cs) = ''TEMP'' then CHR '')'' # TEMPToClose (drop 3 cs)
      else c # TEMPToClose cs)"

definition swapParens :: "string \<Rightarrow> string" where
  "swapParens s = TEMPToClose (closeToOpen (openToTEMP s))"

definition infixToPrefix :: "string \<Rightarrow> string" where
  "infixToPrefix infix =
     join_sp (rev (split_sp (infixToPostfixForPrefix (swapParens (rev infix)))))"

subsection \<open>Evaluation\<close>

text \<open>
  \<open>performOperation\<close>: the \<open>switch\<close> on the operator, with the division guard
  \<^verbatim>\<open>if (operand2 === 0) throw\<close> and the \<open>default\<close> that throws.
\<close>

definition performOperation :: "jsnum \<Rightarrow> jsnum \<Rightarrow> string \<Rightarrow> error + jsnum" where
  "performOperation operand1 operand2 operator =
     (if operator = ''+'' then Inr (js_add operand1 operand2)
      else if operator = ''-'' then Inr (js_sub operand1 operand2)
      else if operator = ''*'' then Inr (js_mul operand1 operand2)
      else if operator = ''/'' then
        (if operand2 = Fin 0 then Inl DivisionByZero else Inr (js_div operand1 operand2))
      else Inl (UnknownOperator operator))"

text \<open>\<^verbatim>\<open>/^[a-zA-Z]+$/.test(token)\<close>\<close>

definition allLetters :: "string \<Rightarrow> bool" where
  "allLetters t = (t \<noteq> [] \<and> list_all isLetter t)"

text \<open>
  One round of the \<open>for\<close> loop of \<open>evaluatePostfix\<close>. The first value popped is
  \<open>operand2\<close>, the second \<open>operand1\<close>.
\<close>

definition postfixToken :: "string \<Rightarrow> jsnum list \<Rightarrow> error + jsnum list" where
  "postfixToken token stack =
     (if isOperator token then
        (case stack of
           operand2 # operand1 # rest \<Rightarrow>
             (case performOperation operand1 operand2 token of
                Inl e \<Rightarrow> Inl e
              | Inr result \<Rightarrow> Inr (result # rest))
         | _ \<Rightarrow> Inl InsufficientOperands)
      else if \<not> isNaN (parseFloat token) then Inr (parseFloat token # stack)
      else if allLetters token then Inl (UnboundVariable token)
      else Inr stack)"

text \<open>
  One round of the loop of \<open>evaluatePrefix\<close>. The first value popped is \<open>operand1\<close>, the
  second \<open>operand2\<close>.
\<close>

definition prefixToken :: "string \<Rightarrow> jsnum list \<Rightarrow> error + jsnum list" where
  "prefixToken token stack =
     (if isOperator token then
        (case stack of
           operand1 # operand2 # rest \<Rightarrow>
             (case performOperation operand1 operand2 token of
                Inl e \<Rightarrow> Inl e
              | Inr result \<Rightarrow> Inr (result # rest))
         | _ \<Rightarrow> Inl InsufficientOperands)
      else if \<not> isNaN (parseFloat token) then Inr (parseFloat token # stack)
      else if allLetters token then Inl (UnboundVariable token)
      else Inr stack)"

text \<open>A loop over the tokens that stops at the first throw.\<close>

fun runTokens ::
  "(string \<Rightarrow> jsnum list \<Rightarrow> error + jsnum list) \<Rightarrow> string list \<Rightarrow> jsnum list \<Rightarrow> error + jsnum list"
where
  "runTokens step [] stack = Inr stack"
| "runTokens step (token # tokens) stack =
     (case step token stack of Inl e \<Rightarrow> Inl e | Inr stack' \<Rightarrow> runTokens step tokens stack')"

text \<open>\<^verbatim>\<open>if (stack.length !== 1) throw ...; return stack[0];\<close>\<close>

fun finish :: "jsnum list \<Rightarrow> error + jsnum" where
  "finish [v] = Inr v"
| "finish _ = Inl MalformedExpression"

definition evaluatePostfix :: "string \<Rightarrow> error + jsnum" where
  "evaluatePostfix postfix =
     (case runTokens postfixToken (split_sp postfix) [] of
        Inl e \<Rightarrow> Inl e
      | Inr stack \<Rightarrow> finish stack)"

definition evaluatePrefix :: "string \<Rightarrow> error + jsnum" where
  "evaluatePrefix prefix =
     (case runTokens prefixToken (rev (split_sp prefix)) [] of
        Inl e \<Rightarrow> Inl e
      | Inr stack \<Rightarrow> finish stack)"

section \<open>Properties\<close>

subsection \<open>Helper lemmas on the conversion loops\<close>

lemma not_operand_paren: "\<not> isOperand (CHR '')'')" "\<not> isOperand (CHR ''('')"
  by (simp_all add: isOperand_def isDigit_def isLetter_def)

lemma popToParen_no_paren:
  "''('' \<notin> set stack \<Longrightarrow> popToParen out stack = (out @ stack, [])"
  by (induction stack arbitrary: out) auto

lemma popHigher_last:
  "stack \<noteq> [] \<Longrightarrow> last stack = ''('' \<Longrightarrow>
   snd (popHigher c out stack) \<noteq> [] \<and> last (snd (popHigher c out stack)) = ''(''"
  by (induction stack arbitrary: out) (auto split: if_splits)

text \<open>
  While no \<open>)\<close> is read, a \<open>(\<close> at the bottom of the operator stack stays there: operators
  are popped only down to the nearest \<open>(\<close>.
\<close>

lemma postfixLoop_last:
  "CHR '')'' \<notin> set s \<Longrightarrow> stack \<noteq> [] \<Longrightarrow> last stack = ''('' \<Longrightarrow>
   snd (postfixLoop s out stack) \<noteq> [] \<and> last (snd (postfixLoop s out stack)) = ''(''"
proof (induction s out stack rule: postfixLoop.induct)
  case (1 out stack)
  then show ?case by simp
next
  case (2 c cs out stack)
  have cs: "CHR '')'' \<notin> set cs" and c: "c \<noteq> CHR '')''"
    using "2.prems"(1) by auto
  show ?case
  proof (cases "isOperand c")
    case True
    have "CHR '')'' \<notin> set (dropWhile isOperand cs)"
      using cs set_dropWhileD by fastforce
    with True "2.IH"(1) "2.prems" show ?thesis by simp
  next
    case nopd: False
    show ?thesis
    proof (cases "c = CHR ''(''")
      case True
      with nopd "2.IH"(2) [OF nopd True cs] "2.prems" show ?thesis by simp
    next
      case nopen: False
      show ?thesis
      proof (cases "isOperator [c]")
        case True
        obtain out' stack' where p: "popHigher [c] out stack = (out', stack')"
          by (cases "popHigher [c] out stack")
        from popHigher_last [OF "2.prems"(2,3), of "[c]" out] p
        have "[c] # stack' \<noteq> []" "last ([c] # stack') = ''(''" by auto
        with "2.IH"(4) [OF nopd nopen c True p [symmetric] cs]
        show ?thesis using nopd nopen c True p by simp
      next
        case False
        with "2.IH"(5) [OF nopd nopen c False cs] "2.prems" nopd nopen c
        show ?thesis by simp
      qed
    qed
  qed
qed

lemma leftover_paren:
  assumes "CHR '')'' \<notin> set s"
  shows "\<exists>ts. infixToPostfix (CHR ''('' # s) = join_sp (ts @ [''(''])"
proof -
  obtain out stack where p: "postfixLoop s [] [''(''] = (out, stack)"
    by (cases "postfixLoop s [] [''('']")
  from postfixLoop_last [OF assms, of "[''('']" "[]"] p
  have "stack \<noteq> []" "last stack = ''(''" by auto
  then have "out @ stack = (out @ butlast stack) @ [''('']"
    by (metis append_assoc append_butlast_last_id)
  then have "join_sp (out @ stack) = join_sp ((out @ butlast stack) @ [''(''])"
    by simp
  moreover have "infixToPostfix (CHR ''('' # s) = join_sp (out @ stack)"
    using p by (simp add: infixToPostfix_def not_operand_paren)
  ultimately show ?thesis by metis
qed

lemma close_without_open:
  "''('' \<notin> set stack \<Longrightarrow>
   postfixLoop (CHR '')'' # cs) out stack = postfixLoop cs (out @ stack) []"
  by (simp add: popToParen_no_paren not_operand_paren)

subsection \<open>Helper lemmas on rounding\<close>

lemma bitLength_nonneg: "0 \<le> bitLength n"
  by (induction n rule: bitLength.induct) (simp add: bitLength.simps)

lemma bitLength_pos: "0 < n \<Longrightarrow> 1 \<le> bitLength n"
  using bitLength_nonneg [of "n div 2"] by (simp add: bitLength.simps [of n])

lemma bitLength_le: "n < 2 ^ w \<Longrightarrow> bitLength n \<le> int w"
proof (induction w arbitrary: n)
  case 0
  then show ?case by (simp add: bitLength.simps [of n])
next
  case (Suc w)
  show ?case
  proof (cases "n \<le> 0")
    case True
    then show ?thesis by (simp add: bitLength.simps [of n])
  next
    case False
    have "n div 2 < 2 ^ w" using Suc.prems by simp
    from Suc.IH [OF this] False show ?thesis by (simp add: bitLength.simps [of n])
  qed
qed

lemma roundHalfEven_int: "roundHalfEven (of_int z) = z"
  by (simp add: roundHalfEven_def)

text \<open>An integer below \<open>2 ^ 53\<close> is a double: rounding leaves it as it is.\<close>

lemma toDouble_exact_int:
  assumes "0 \<le> n" "n < 2 ^ 53"
  shows "toDouble (of_int n) = Fin (of_int n)"
proof (cases "n = 0")
  case True
  then show ?thesis by (simp add: toDouble_def)
next
  case False
  with assms have pos: "0 < n" by simp
  then have one: "(1::rat) \<le> of_int n" by simp
  have bl: "1 \<le> bitLength n" "bitLength n \<le> 53"
    using bitLength_pos [OF pos] bitLength_le [OF assms(2)] by simp_all
  have lg: "ilog2 \<bar>of_int n\<bar> = bitLength n - 1"
    using pos one by (simp add: ilog2_def)
  define j where "j = nat (- quantumExp (of_int n))"
  have k: "quantumExp (of_int n) = - int j"
    using bl lg by (simp add: quantumExp_def j_def max_def)
  have p: "pow2 (- int j) = 1 / 2 ^ j"
    by (simp add: pow2_def)
  have "of_int n / pow2 (- int j) = (of_int (n * 2 ^ j) :: rat)"
    by (simp add: p)
  then have r: "roundHalfEven (of_int n / pow2 (- int j)) = n * 2 ^ j"
    using roundHalfEven_int [of "n * 2 ^ j"] by simp
  have v: "of_int (roundHalfEven (of_int n / pow2 (- int j))) * pow2 (- int j) = (of_int n :: rat)"
    by (simp only: r) (simp add: p)
  show ?thesis
    using False k v lg bl by (simp add: toDouble_def Let_def)
qed

lemma toDouble_not_NaN: "\<not> isNaN (toDouble q)"
  by (simp add: toDouble_def Let_def)

subsection \<open>Helper lemmas on validation and on tokens\<close>

lemma emptyParens_append: "emptyParens (xs @ CHR ''('' # CHR '')'' # ys)"
proof (induction xs)
  case Nil
  then show ?case by simp
next
  case (Cons x xs)
  then show ?case by (cases xs) auto
qed

lemma balanceScan_closing: "balanceScan b e = Inl x \<Longrightarrow> x = UnmatchedClosingParen"
  by (induction b e rule: balanceScan.induct) (auto simp: Let_def split: if_splits)

lemma digit_value: "isDigit d \<Longrightarrow> (0::int) \<le> of_char d - 48"
  by (auto simp: isDigit_def)

lemma foldl_digits_nonneg:
  "list_all isDigit ds \<Longrightarrow> 0 \<le> n \<Longrightarrow>
   0 \<le> foldl (\<lambda>n d. 10 * n + (of_char d - 48)) (n::int) ds"
proof (induction ds arbitrary: n)
  case Nil
  then show ?case by simp
next
  case (Cons d ds)
  then have "0 \<le> 10 * n + (of_char d - 48)"
    using digit_value [of d] by simp
  with Cons show ?case by simp
qed

lemma digitsValue_nonneg: "list_all isDigit ds \<Longrightarrow> 0 \<le> digitsValue ds"
  unfolding digitsValue_def by (rule foldl_digits_nonneg) simp_all

lemma digit_facts:
  "isDigit d \<Longrightarrow> \<not> isWhiteSpace d \<and> d \<noteq> CHR ''-'' \<and> d \<noteq> CHR ''+'' \<and> d \<noteq> CHR ''I''"
  by (auto simp: isDigit_def isWhiteSpace_def)

lemma digit_start_not_operator: "isDigit d \<Longrightarrow> \<not> isOperator (d # t)"
  by (auto simp: isOperator_def operators_def inheritedNames_def isDigit_def)

text \<open>
  A run of digits followed by a character that cannot continue a literal parses as the
  value of the digits, rounded, whatever comes after.
\<close>

lemma parseFloat_digits_then:
  assumes "ds \<noteq> []" "list_all isDigit ds" "\<not> isDigit c" "c \<notin> set ''.eE''"
  shows "parseFloat (ds @ c # r) = toDouble (of_int (digitsValue ds))"
proof -
  obtain d ds' where ds: "ds = d # ds'" using assms(1) by (cases ds) auto
  have d: "isDigit d" using assms(2) ds by simp
  have all: "\<And>x. x \<in> set ds \<Longrightarrow> isDigit x"
    using assms(2) by (simp add: list_all_iff)
  have tw: "takeWhile isDigit (ds @ c # r) = ds"
    using all assms(3) by (simp add: takeWhile_append2)
  have dw: "dropWhile isDigit (ds @ c # r) = c # r"
    using all assms(3) by (simp add: dropWhile_append2)
  have inf: "take 8 (ds @ c # r) \<noteq> ''Infinity''"
    using digit_facts [OF d] ds by (auto simp: take_Cons')
  have ex: "exponentPart (c # r) = 0"
    using assms(4) by (simp add: exponentPart_def)
  have "unsignedLiteral (ds @ c # r) = toDouble (of_int (digitsValue ds))"
    unfolding unsignedLiteral_def using inf tw dw ex assms(1,4)
    by (simp add: scale10_def Let_def)
  moreover have "parseFloat (ds @ c # r) = unsignedLiteral (ds @ c # r)"
    using digit_facts [OF d] ds by (simp add: parseFloat_def)
  ultimately show ?thesis by simp
qed

lemma number_token_pushed:
  "\<not> isOperator t \<Longrightarrow> \<not> isNaN (parseFloat t) \<Longrightarrow>
   postfixToken t st = Inr (parseFloat t # st) \<and> prefixToken t st = Inr (parseFloat t # st)"
  by (simp add: postfixToken_def prefixToken_def)

text \<open>A token of digits and then a letter other than \<open>e\<close> and \<open>E\<close>, in both token steps.\<close>

lemma digits_letter_token:
  assumes "ds \<noteq> []" "list_all isDigit ds" "isLetter c" "c \<noteq> CHR ''e''" "c \<noteq> CHR ''E''"
  shows "parseFloat (ds @ c # r) = toDouble (of_int (digitsValue ds))"
    and "postfixToken (ds @ c # r) st = Inr (toDouble (of_int (digitsValue ds)) # st)"
    and "prefixToken (ds @ c # r) st = Inr (toDouble (of_int (digitsValue ds)) # st)"
proof -
  have c: "\<not> isDigit c" "c \<notin> set ''.eE''"
    using assms(3,4,5) by (auto simp: isLetter_def isDigit_def)
  show pf: "parseFloat (ds @ c # r) = toDouble (of_int (digitsValue ds))"
    using parseFloat_digits_then [OF assms(1,2) c] .
  obtain d ds' where ds: "ds = d # ds'" using assms(1) by (cases ds) auto
  have "isDigit d" using assms(2) ds by simp
  then have nop: "\<not> isOperator (ds @ c # r)"
    using digit_start_not_operator [of d "ds' @ c # r"] ds by simp
  have nn: "\<not> isNaN (parseFloat (ds @ c # r))"
    by (simp add: pf toDouble_not_NaN)
  from number_token_pushed [OF nop nn, of st] pf
  show "postfixToken (ds @ c # r) st = Inr (toDouble (of_int (digitsValue ds)) # st)"
    and "prefixToken (ds @ c # r) st = Inr (toDouble (of_int (digitsValue ds)) # st)"
    by simp_all
qed



lemma isOperator_div: "isOperator ''/''"
  by (simp add: isOperator_def operators_def)

lemma performOperation_zero_iff:
  "(performOperation a b op = Inl DivisionByZero) = (op = ''/'' \<and> b = Fin 0)"
  by (auto simp: performOperation_def)

lemma postfixToken_div:
  "postfixToken ''/'' (b # a # st) =
     (if b = Fin 0 then Inl DivisionByZero else Inr (js_div a b # st))"
  by (simp add: postfixToken_def isOperator_div performOperation_def)

lemma prefixToken_div:
  "prefixToken ''/'' (a # b # st) =
     (if b = Fin 0 then Inl DivisionByZero else Inr (js_div a b # st))"
  by (simp add: prefixToken_def isOperator_div performOperation_def)

text \<open>The token loop on a list in two parts: the second part runs on the stack of the first.\<close>

lemma runTokens_append:
  "runTokens step (xs @ ys) st =
     (case runTokens step xs st of Inl e \<Rightarrow> Inl e | Inr st' \<Rightarrow> runTokens step ys st')"
  by (induction xs arbitrary: st) (auto split: sum.splits)

text \<open>
  A \<open>/\<close> token inside a whole evaluation, reached with at least two values on the stack:
  the evaluation fails there when the right-hand operand is zero, and otherwise goes on
  with the quotient in place of the two values.
\<close>

lemma evaluatePostfix_div:
  assumes "split_sp p = ts @ ''/'' # rest" "runTokens postfixToken ts [] = Inr (b # a # st)"
  shows "evaluatePostfix p =
     (if b = Fin 0 then Inl DivisionByZero
      else case runTokens postfixToken rest (js_div a b # st) of
             Inl e \<Rightarrow> Inl e | Inr s \<Rightarrow> finish s)"
  using assms by (simp add: evaluatePostfix_def runTokens_append postfixToken_div)

lemma evaluatePrefix_div:
  assumes "rev (split_sp p) = ts @ ''/'' # rest" "runTokens prefixToken ts [] = Inr (a # b # st)"
  shows "evaluatePrefix p =
     (if b = Fin 0 then Inl DivisionByZero
      else case runTokens prefixToken rest (js_div a b # st) of
             Inl e \<Rightarrow> Inl e | Inr s \<Rightarrow> finish s)"
  using assms by (simp add: evaluatePrefix_def runTokens_append prefixToken_div)

subsection \<open>Conversion and evaluation of the sample expressions\<close>

text \<open>
  Claim C2. \<open>infixToPostfix\<close> turns \<open>(2+3)*4\<close> into \<open>2 3 + 4 *\<close>, which \<open>evaluatePostfix\<close>
  evaluates to 20; \<open>10+2*6\<close> into \<open>10 2 6 * +\<close>, which evaluates to 22; and \<open>2+3*4-5\<close> into
  \<open>2 3 4 * + 5 -\<close>, which evaluates to 9.
\<close>

theorem postfix_samples:
  "infixToPostfix ''(2+3)*4'' = ''2 3 + 4 *'' \<and>
   evaluatePostfix ''2 3 + 4 *'' = Inr (Fin 20) \<and>
   infixToPostfix ''10+2*6'' = ''10 2 6 * +'' \<and>
   evaluatePostfix ''10 2 6 * +'' = Inr (Fin 22) \<and>
   infixToPostfix ''2+3*4-5'' = ''2 3 4 * + 5 -'' \<and>
   evaluatePostfix ''2 3 4 * + 5 -'' = Inr (Fin 9)"
  by code_simp

text \<open>
  Claim C3. \<open>infixToPrefix\<close> turns \<open>(2+3)*4\<close> into \<open>* + 2 3 4\<close>, through its four stages:
  the reversed characters, the swapped parentheses, the conversion that pops on \<open>>=\<close>, and
  the reversed tokens. \<open>evaluatePrefix\<close> evaluates the result to 20.
\<close>

theorem prefix_sample:
  "rev ''(2+3)*4'' = ''4*)3+2('' \<and>
   swapParens ''4*)3+2('' = ''4*(3+2)'' \<and>
   infixToPostfixForPrefix ''4*(3+2)'' = ''4 3 2 + *'' \<and>
   join_sp (rev (split_sp ''4 3 2 + *'')) = ''* + 2 3 4'' \<and>
   infixToPrefix ''(2+3)*4'' = ''* + 2 3 4'' \<and>
   evaluatePrefix ''* + 2 3 4'' = Inr (Fin 20)"
  by code_simp

text \<open>
  Claim C1 says that for every valid expression over numeric operands the postfix and the
  prefix route give the same value, the value of the expression with left-associative
  operators. The code breaks this at \<open>8-3-2\<close>: the expression passes validation, the
  postfix route gives \<open>(8-3)-2 = 3\<close>, and \<open>infixToPrefix\<close> returns \<open>- 8 - 3 2\<close>, the prefix
  form of \<open>8-(3-2)\<close>, which \<open>evaluatePrefix\<close> evaluates to 7.
\<close>

theorem prefix_route_regroups_subtraction:
  "validateExpression ''8-3-2'' = Inr () \<and>
   infixToPostfix ''8-3-2'' = ''8 3 - 2 -'' \<and>
   evaluatePostfix (infixToPostfix ''8-3-2'') = Inr (Fin ((8 - 3) - 2)) \<and>
   infixToPrefix ''8-3-2'' = ''- 8 - 3 2'' \<and>
   evaluatePrefix (infixToPrefix ''8-3-2'') = Inr (Fin (8 - (3 - 2))) \<and>
   evaluatePrefix (infixToPrefix ''8-3-2'') \<noteq> evaluatePostfix (infixToPostfix ''8-3-2'')"
  by code_simp

subsection \<open>Validation\<close>

text \<open>
  Claim C4, as stated, has every input that contains \<open>()\<close> fail with \<open>EmptyParens\<close>. The
  empty-parentheses check is the last of the five, so an input with \<open>()\<close> that trips an
  earlier check fails with that check's error: \<open>*()\<close> fails with \<open>InvalidBoundary\<close>.
\<close>

theorem empty_parens_not_first:
  "''*()'' = ''*'' @ ''()'' @ [] \<and> validateExpression ''*()'' = Inl InvalidBoundary \<and>
   validateExpression ''*()'' \<noteq> Inl EmptyParens"
  by code_simp

text \<open>
  Claim C4, amended. \<open>validateExpression\<close> fails on \<open>2++3\<close> with \<open>ConsecutiveOperators\<close>, on
  \<open>(2+3\<close> with \<open>UnmatchedOpeningParen\<close>, on \<open>2+3)\<close> with \<open>UnmatchedClosingParen\<close>, on \<open>()\<close>
  with \<open>EmptyParens\<close>, on \<open>*2+3\<close> with \<open>InvalidBoundary\<close> and on \<open>2#3\<close> with
  \<open>InvalidCharacter\<close>. Every input that contains \<open>()\<close> is rejected, and with \<open>EmptyParens\<close>
  exactly when the four earlier checks pass. The checks run in the order character set,
  parenthesis balance, consecutive operators, boundary, empty parentheses: each error is
  returned exactly when its check fails and all earlier ones pass, and the function returns
  normally exactly when no check fails.
\<close>

theorem validate_order:
  "validateExpression ''2++3'' = Inl ConsecutiveOperators \<and>
   validateExpression ''(2+3'' = Inl UnmatchedOpeningParen \<and>
   validateExpression ''2+3)'' = Inl UnmatchedClosingParen \<and>
   validateExpression ''()'' = Inl EmptyParens \<and>
   validateExpression ''*2+3'' = Inl InvalidBoundary \<and>
   validateExpression ''2#3'' = Inl InvalidCharacter \<and>
   (e = xs @ ''()'' @ ys \<longrightarrow>
      validateExpression e \<noteq> Inr () \<and>
      (validateExpression e = Inl EmptyParens) =
        (list_all validChar e \<and> balanceScan 0 e = Inr 0 \<and>
         \<not> consecutiveOps e \<and> \<not> badBoundary e)) \<and>
   (validateExpression e = Inl InvalidCharacter) = (e = [] \<or> \<not> list_all validChar e) \<and>
   (validateExpression e = Inl UnmatchedClosingParen) =
     (e \<noteq> [] \<and> list_all validChar e \<and> balanceScan 0 e = Inl UnmatchedClosingParen) \<and>
   (validateExpression e = Inl UnmatchedOpeningParen) =
     (e \<noteq> [] \<and> list_all validChar e \<and> (\<exists>b. balanceScan 0 e = Inr b \<and> b \<noteq> 0)) \<and>
   (validateExpression e = Inl ConsecutiveOperators) =
     (e \<noteq> [] \<and> list_all validChar e \<and> balanceScan 0 e = Inr 0 \<and> consecutiveOps e) \<and>
   (validateExpression e = Inl InvalidBoundary) =
     (e \<noteq> [] \<and> list_all validChar e \<and> balanceScan 0 e = Inr 0 \<and> \<not> consecutiveOps e \<and>
      badBoundary e) \<and>
   (validateExpression e = Inl EmptyParens) =
     (e \<noteq> [] \<and> list_all validChar e \<and> balanceScan 0 e = Inr 0 \<and> \<not> consecutiveOps e \<and>
      \<not> badBoundary e \<and> emptyParens e) \<and>
   (validateExpression e = Inr ()) =
     (e \<noteq> [] \<and> list_all validChar e \<and> balanceScan 0 e = Inr 0 \<and> \<not> consecutiveOps e \<and>
      \<not> badBoundary e \<and> \<not> emptyParens e)"
proof -
  have ex: "validateExpression ''2++3'' = Inl ConsecutiveOperators \<and>
   validateExpression ''(2+3'' = Inl UnmatchedOpeningParen \<and>
   validateExpression ''2+3)'' = Inl UnmatchedClosingParen \<and>
   validateExpression ''()'' = Inl EmptyParens \<and>
   validateExpression ''*2+3'' = Inl InvalidBoundary \<and>
   validateExpression ''2#3'' = Inl InvalidCharacter"
    by code_simp
  have chain:
   "(validateExpression e = Inl InvalidCharacter) = (e = [] \<or> \<not> list_all validChar e)"
   "(validateExpression e = Inl UnmatchedClosingParen) =
     (e \<noteq> [] \<and> list_all validChar e \<and> balanceScan 0 e = Inl UnmatchedClosingParen)"
   "(validateExpression e = Inl UnmatchedOpeningParen) =
     (e \<noteq> [] \<and> list_all validChar e \<and> (\<exists>b. balanceScan 0 e = Inr b \<and> b \<noteq> 0))"
   "(validateExpression e = Inl ConsecutiveOperators) =
     (e \<noteq> [] \<and> list_all validChar e \<and> balanceScan 0 e = Inr 0 \<and> consecutiveOps e)"
   "(validateExpression e = Inl InvalidBoundary) =
     (e \<noteq> [] \<and> list_all validChar e \<and> balanceScan 0 e = Inr 0 \<and> \<not> consecutiveOps e \<and>
      badBoundary e)"
   "(validateExpression e = Inl EmptyParens) =
     (e \<noteq> [] \<and> list_all validChar e \<and> balanceScan 0 e = Inr 0 \<and> \<not> consecutiveOps e \<and>
      \<not> badBoundary e \<and> emptyParens e)"
   "(validateExpression e = Inr ()) =
     (e \<noteq> [] \<and> list_all validChar e \<and> balanceScan 0 e = Inr 0 \<and> \<not> consecutiveOps e \<and>
      \<not> badBoundary e \<and> \<not> emptyParens e)"
    using balanceScan_closing [of 0 e]
    by (auto simp: validateExpression_def split: sum.splits)
  have sub: "e = xs @ ''()'' @ ys \<longrightarrow>
      validateExpression e \<noteq> Inr () \<and>
      (validateExpression e = Inl EmptyParens) =
        (list_all validChar e \<and> balanceScan 0 e = Inr 0 \<and>
         \<not> consecutiveOps e \<and> \<not> badBoundary e)"
  proof
    assume "e = xs @ ''()'' @ ys"
    then have "emptyParens e" "e \<noteq> []" using emptyParens_append [of xs ys] by simp_all
    with chain(6,7) show "validateExpression e \<noteq> Inr () \<and>
      (validateExpression e = Inl EmptyParens) =
        (list_all validChar e \<and> balanceScan 0 e = Inr 0 \<and>
         \<not> consecutiveOps e \<and> \<not> badBoundary e)" by simp
  qed
  from ex sub chain show ?thesis by blast
qed

text \<open>
  The amended claim C4 at \<open>2+()\<close>: it contains \<open>()\<close>, passes the four earlier checks, and
  fails with \<open>EmptyParens\<close>.
\<close>

theorem validate_order_witness:
  "''2+()'' = ''2+'' @ ''()'' @ [] \<and>
   validateExpression ''2+()'' \<noteq> Inr () \<and>
   validateExpression ''2+()'' = Inl EmptyParens"
proof -
  have h: "''2+()'' = ''2+'' @ ''()'' @ []" by simp
  have v: "list_all validChar ''2+()'' \<and> balanceScan 0 ''2+()'' = Inr 0 \<and>
         \<not> consecutiveOps ''2+()'' \<and> \<not> badBoundary ''2+()''"
    by code_simp
  from validate_order [of "''2+()''" "''2+''" "[]"] h v show ?thesis by blast
qed

text \<open>
  Claim C7. \<open>validateExpression\<close> accepts a leading \<open>-\<close> and a lone trailing \<open>-\<close>: \<open>-5+3\<close> and
  \<open>2-\<close> pass, while \<open>2+\<close>, \<open>2*\<close> and \<open>2/\<close> fail with \<open>InvalidBoundary\<close>.
\<close>

theorem lone_minus_boundaries:
  "validateExpression ''-5+3'' = Inr () \<and>
   validateExpression ''2-'' = Inr () \<and>
   validateExpression ''2+'' = Inl InvalidBoundary \<and>
   validateExpression ''2*'' = Inl InvalidBoundary \<and>
   validateExpression ''2/'' = Inl InvalidBoundary"
  by code_simp

subsection \<open>Parentheses without a partner in infixToPostfix\<close>

text \<open>
  Claim C6, as stated, has \<open>infixToPostfix\<close> fail when a \<open>)\<close> empties the operator stack
  without meeting a \<open>(\<close>. The source has no such throw: on \<open>2+3)\<close> the \<open>)\<close> pops \<open>+\<close> from a
  stack that holds no \<open>(\<close>, and the function returns \<open>2 3 +\<close>.
\<close>

theorem close_paren_returns:
  "postfixLoop ''2+3'' [] [] = ([''2'', ''3''], [''+'']) \<and>
   popToParen [''2'', ''3''] [''+''] = ([''2'', ''3'', ''+''], []) \<and>
   infixToPostfix ''2+3)'' = ''2 3 +''"
  by code_simp

text \<open>
  Claim C6, amended. When \<open>infixToPostfix\<close> reads a \<open>)\<close> and the operator stack holds no
  \<open>(\<close>, it does not fail: every operator on the stack is popped to the output, the stack is
  left empty, and the conversion goes on with the next character. So \<open>2+3)\<close> is converted
  to \<open>2 3 +\<close> and \<open>2+3)*4\<close> to \<open>2 3 + 4 *\<close>.
\<close>

theorem close_paren_without_open:
  "(''('' \<notin> set stack \<longrightarrow>
      popToParen out stack = (out @ stack, []) \<and>
      postfixLoop (CHR '')'' # cs) out stack = postfixLoop cs (out @ stack) []) \<and>
   infixToPostfix ''2+3)'' = ''2 3 +'' \<and>
   infixToPostfix ''2+3)*4'' = ''2 3 + 4 *''"
proof -
  have ex: "infixToPostfix ''2+3)'' = ''2 3 +'' \<and> infixToPostfix ''2+3)*4'' = ''2 3 + 4 *''"
    by code_simp
  from ex popToParen_no_paren [of stack out] close_without_open [of stack cs out]
  show ?thesis by blast
qed

text \<open>
  The amended claim C6 at the state in which \<open>2+3)*4\<close> reaches its \<open>)\<close>: output \<open>2, 3\<close>,
  stack \<open>+\<close>.
\<close>

theorem close_paren_without_open_witness:
  "''('' \<notin> set [''+''] \<and>
   popToParen [''2'', ''3''] [''+''] = ([''2'', ''3''] @ [''+''], []) \<and>
   postfixLoop (CHR '')'' # ''*4'') [''2'', ''3''] [''+''] =
     postfixLoop ''*4'' ([''2'', ''3''] @ [''+'']) []"
proof -
  have h: "''('' \<notin> set [''+'']" by simp
  from close_paren_without_open [of "[''+'']" "[''2'', ''3'']" "''*4''"] h
  show ?thesis by blast
qed

text \<open>
  Claim C10. Called on an input with an unmatched \<open>(\<close>, which \<open>validateExpression\<close> would
  reject, \<open>infixToPostfix\<close> pops the \<open>(\<close> left on the operator stack into the output with
  the operators: on \<open>(2+3\<close> the loop ends with \<open>+\<close> and \<open>(\<close> on the stack and the result is
  \<open>2 3 + (\<close>. In general, when the input starts with \<open>(\<close> and has no \<open>)\<close>, the last token of
  the output is \<open>(\<close>.
\<close>

theorem unmatched_open_lands_in_output:
  "validateExpression ''(2+3'' = Inl UnmatchedOpeningParen \<and>
   postfixLoop ''(2+3'' [] [] = ([''2'', ''3''], [''+'', ''('']) \<and>
   infixToPostfix ''(2+3'' = ''2 3 + ('' \<and>
   (CHR '')'' \<notin> set s \<longrightarrow> (\<exists>ts. infixToPostfix (CHR ''('' # s) = join_sp (ts @ [''(''])))"
proof -
  have ex: "validateExpression ''(2+3'' = Inl UnmatchedOpeningParen \<and>
   postfixLoop ''(2+3'' [] [] = ([''2'', ''3''], [''+'', ''('']) \<and>
   infixToPostfix ''(2+3'' = ''2 3 + (''"
    by code_simp
  from ex leftover_paren [of s] show ?thesis by blast
qed

text \<open>Claim C10 at the input \<open>(2+3\<close>, whose rest \<open>2+3\<close> has no \<open>)\<close>.\<close>

theorem unmatched_open_lands_in_output_witness:
  "CHR '')'' \<notin> set ''2+3'' \<and>
   (\<exists>ts. infixToPostfix (CHR ''('' # ''2+3'') = join_sp (ts @ [''('']))"
proof -
  have h: "CHR '')'' \<notin> set ''2+3''" by simp
  from unmatched_open_lands_in_output [of "''2+3''"] h show ?thesis by blast
qed

subsection \<open>Evaluation: failures and token classes\<close>

text \<open>
  Claim C5. \<open>evaluatePostfix\<close> fails on \<open>x 2 +\<close> with \<open>UnboundVariable\<close>, on \<open>2 +\<close> with
  \<open>InsufficientOperands\<close>, on \<open>2 0 /\<close> with \<open>DivisionByZero\<close> and on \<open>2 3\<close> with
  \<open>MalformedExpression\<close>; \<open>evaluatePrefix\<close> fails in the same four ways on \<open>+ x 2\<close>,
  \<open>+ 2\<close>, \<open>/ 2 0\<close> and \<open>2 3\<close>. \<open>performOperation\<close> fails with \<open>DivisionByZero\<close> exactly when
  the operator is \<open>/\<close> and its second operand is zero. So a \<open>/\<close> token on a stack of two or
  more values fails with \<open>DivisionByZero\<close> exactly when the right-hand operand is zero (the
  top of the stack in \<open>evaluatePostfix\<close>, the value below the top in \<open>evaluatePrefix\<close>), and
  otherwise replaces the two values by their quotient. The same holds inside a whole
  evaluation by either evaluator: when the scan reaches a \<open>/\<close> with two or more values on
  the stack, the evaluation fails with \<open>DivisionByZero\<close> if the right-hand operand is zero
  and otherwise goes on with the quotient. A zero dividend is no failure: \<open>0 2 /\<close> and
  \<open>/ 0 2\<close> give 0. The quotient is the rounded one: \<open>1 3 /\<close> gives the double nearest
  to one third.
\<close>

theorem eval_failures:
  "evaluatePostfix ''x 2 +'' = Inl (UnboundVariable ''x'') \<and>
   evaluatePostfix ''2 +'' = Inl InsufficientOperands \<and>
   evaluatePostfix ''2 0 /'' = Inl DivisionByZero \<and>
   evaluatePostfix ''2 3'' = Inl MalformedExpression \<and>
   (performOperation a b op = Inl DivisionByZero) = (op = ''/'' \<and> b = Fin 0) \<and>
   postfixToken ''/'' (b # a # st) =
     (if b = Fin 0 then Inl DivisionByZero else Inr (js_div a b # st)) \<and>
   prefixToken ''/'' (a # b # st) =
     (if b = Fin 0 then Inl DivisionByZero else Inr (js_div a b # st)) \<and>
   evaluatePrefix ''+ x 2'' = Inl (UnboundVariable ''x'') \<and>
   evaluatePrefix ''+ 2'' = Inl InsufficientOperands \<and>
   evaluatePrefix ''/ 2 0'' = Inl DivisionByZero \<and>
   evaluatePrefix ''2 3'' = Inl MalformedExpression \<and>
   evaluatePrefix ''+ 2 / 1 0'' = Inl DivisionByZero \<and>
   evaluatePostfix ''2 1 0 / +'' = Inl DivisionByZero \<and>
   evaluatePrefix ''/ 0 2'' = Inr (Fin 0) \<and>
   evaluatePostfix ''0 2 /'' = Inr (Fin 0) \<and>
   evaluatePrefix ''/ 6 3'' = Inr (Fin 2) \<and>
   evaluatePostfix ''6 3 /'' = Inr (Fin 2) \<and>
   evaluatePrefix ''/ 1 3'' = Inr (Fin (6004799503160661 / 18014398509481984)) \<and>
   evaluatePostfix ''1 3 /'' = Inr (Fin (6004799503160661 / 18014398509481984)) \<and>
   (split_sp p = ts @ ''/'' # rest \<and> runTokens postfixToken ts [] = Inr (y # x # s) \<longrightarrow>
      evaluatePostfix p =
        (if y = Fin 0 then Inl DivisionByZero
         else case runTokens postfixToken rest (js_div x y # s) of
                Inl e \<Rightarrow> Inl e | Inr s' \<Rightarrow> finish s')) \<and>
   (rev (split_sp q) = us @ ''/'' # others \<and> runTokens prefixToken us [] = Inr (v # w # z) \<longrightarrow>
      evaluatePrefix q =
        (if w = Fin 0 then Inl DivisionByZero
         else case runTokens prefixToken others (js_div v w # z) of
                Inl e \<Rightarrow> Inl e | Inr s' \<Rightarrow> finish s'))"
proof -
  have ex: "evaluatePostfix ''x 2 +'' = Inl (UnboundVariable ''x'') \<and>
   evaluatePostfix ''2 +'' = Inl InsufficientOperands \<and>
   evaluatePostfix ''2 0 /'' = Inl DivisionByZero \<and>
   evaluatePostfix ''2 3'' = Inl MalformedExpression"
    by code_simp
  have ex2: "evaluatePrefix ''+ x 2'' = Inl (UnboundVariable ''x'') \<and>
   evaluatePrefix ''+ 2'' = Inl InsufficientOperands \<and>
   evaluatePrefix ''/ 2 0'' = Inl DivisionByZero \<and>
   evaluatePrefix ''2 3'' = Inl MalformedExpression \<and>
   evaluatePrefix ''+ 2 / 1 0'' = Inl DivisionByZero \<and>
   evaluatePostfix ''2 1 0 / +'' = Inl DivisionByZero \<and>
   evaluatePrefix ''/ 0 2'' = Inr (Fin 0) \<and>
   evaluatePostfix ''0 2 /'' = Inr (Fin 0) \<and>
   evaluatePrefix ''/ 6 3'' = Inr (Fin 2) \<and>
   evaluatePostfix ''6 3 /'' = Inr (Fin 2) \<and>
   evaluatePrefix ''/ 1 3'' = Inr (Fin (6004799503160661 / 18014398509481984)) \<and>
   evaluatePostfix ''1 3 /'' = Inr (Fin (6004799503160661 / 18014398509481984))"
    by code_simp
  from ex ex2 performOperation_zero_iff [of a b op] postfixToken_div [of b a st]
    prefixToken_div [of a b st] evaluatePostfix_div [of p ts rest y x s]
    evaluatePrefix_div [of q us others v w z]
  show ?thesis by blast
qed

text \<open>
  Claim C5 at \<open>2 0 /\<close> and \<open>/ 2 0\<close>: in each the \<open>/\<close> is reached with the stack \<open>0, 2\<close> or
  \<open>2, 0\<close>, the right-hand operand is zero, and the whole evaluation fails with
  \<open>DivisionByZero\<close>.
\<close>

theorem eval_failures_witness:
  "split_sp ''2 0 /'' = [''2'', ''0''] @ ''/'' # [] \<and>
   runTokens postfixToken [''2'', ''0''] [] = Inr [Fin 0, Fin 2] \<and>
   evaluatePostfix ''2 0 /'' = Inl DivisionByZero \<and>
   rev (split_sp ''/ 2 0'') = [''0'', ''2''] @ ''/'' # [] \<and>
   runTokens prefixToken [''0'', ''2''] [] = Inr [Fin 2, Fin 0] \<and>
   evaluatePrefix ''/ 2 0'' = Inl DivisionByZero"
proof -
  have h: "split_sp ''2 0 /'' = [''2'', ''0''] @ ''/'' # [] \<and>
   runTokens postfixToken [''2'', ''0''] [] = Inr [Fin 0, Fin 2] \<and>
   rev (split_sp ''/ 2 0'') = [''0'', ''2''] @ ''/'' # [] \<and>
   runTokens prefixToken [''0'', ''2''] [] = Inr [Fin 2, Fin 0]"
    by code_simp
  from eval_failures [where p = "''2 0 /''" and ts = "[''2'', ''0'']" and rest = "[]"
      and y = "Fin 0" and x = "Fin 2" and s = "[]" and q = "''/ 2 0''"
      and us = "[''0'', ''2'']" and others = "[]" and v = "Fin 2" and w = "Fin 0"
      and z = "[]"] h
  have "evaluatePostfix ''2 0 /'' =
     (if Fin 0 = Fin 0 then Inl DivisionByZero
      else case runTokens postfixToken [] [js_div (Fin 2) (Fin 0)] of
             Inl e \<Rightarrow> Inl e | Inr s' \<Rightarrow> finish s')"
    and "evaluatePrefix ''/ 2 0'' =
     (if Fin 0 = Fin 0 then Inl DivisionByZero
      else case runTokens prefixToken [] [js_div (Fin 2) (Fin 0)] of
             Inl e \<Rightarrow> Inl e | Inr s' \<Rightarrow> finish s')"
    by blast+
  then have "evaluatePostfix ''2 0 /'' = Inl DivisionByZero"
    and "evaluatePrefix ''/ 2 0'' = Inl DivisionByZero"
    by simp_all
  with h show ?thesis by blast
qed

text \<open>
  Claim C8. In both evaluators a token that is not an operator and on which \<open>parseFloat\<close>
  does not give NaN is pushed as the number \<open>parseFloat\<close> gives. A token of digits
  followed by a letter other than \<open>e\<close> and \<open>E\<close> is such a token: it is pushed as the value
  of its digits rounded to a double, which is that value itself below \<open>2 ^ 53\<close>. The token
  \<open>12x\<close> is the number 12, and \<open>evaluatePostfix\<close> of \<open>12x 3 +\<close> is 15.
\<close>

theorem numeric_prefix_token:
  "(\<not> isOperator t \<and> \<not> isNaN (parseFloat t) \<longrightarrow>
      postfixToken t st = Inr (parseFloat t # st) \<and>
      prefixToken t st = Inr (parseFloat t # st)) \<and>
   (ds \<noteq> [] \<and> list_all isDigit ds \<and> isLetter c \<and> c \<noteq> CHR ''e'' \<and> c \<noteq> CHR ''E'' \<longrightarrow>
      parseFloat (ds @ c # r) = toDouble (of_int (digitsValue ds)) \<and>
      postfixToken (ds @ c # r) st = Inr (toDouble (of_int (digitsValue ds)) # st) \<and>
      prefixToken (ds @ c # r) st = Inr (toDouble (of_int (digitsValue ds)) # st)) \<and>
   (ds \<noteq> [] \<and> list_all isDigit ds \<and> digitsValue ds < 2 ^ 53 \<and>
    isLetter c \<and> c \<noteq> CHR ''e'' \<and> c \<noteq> CHR ''E'' \<longrightarrow>
      parseFloat (ds @ c # r) = Fin (of_int (digitsValue ds))) \<and>
   parseFloat ''12x'' = Fin 12 \<and>
   parseFloat ''9007199254740993x'' = Fin 9007199254740992 \<and>
   evaluatePostfix ''12x 3 +'' = Inr (Fin 15) \<and>
   evaluatePrefix ''+ 12x 3'' = Inr (Fin 15)"
proof -
  have ex: "parseFloat ''12x'' = Fin 12 \<and>
   parseFloat ''9007199254740993x'' = Fin 9007199254740992 \<and>
   evaluatePostfix ''12x 3 +'' = Inr (Fin 15) \<and>
   evaluatePrefix ''+ 12x 3'' = Inr (Fin 15)"
    by code_simp
  have lit: "ds \<noteq> [] \<and> list_all isDigit ds \<and> isLetter c \<and> c \<noteq> CHR ''e'' \<and> c \<noteq> CHR ''E'' \<longrightarrow>
      parseFloat (ds @ c # r) = toDouble (of_int (digitsValue ds)) \<and>
      postfixToken (ds @ c # r) st = Inr (toDouble (of_int (digitsValue ds)) # st) \<and>
      prefixToken (ds @ c # r) st = Inr (toDouble (of_int (digitsValue ds)) # st)"
    using digits_letter_token [of ds c] by blast
  have small: "ds \<noteq> [] \<and> list_all isDigit ds \<and> digitsValue ds < 2 ^ 53 \<and>
    isLetter c \<and> c \<noteq> CHR ''e'' \<and> c \<noteq> CHR ''E'' \<longrightarrow>
      parseFloat (ds @ c # r) = Fin (of_int (digitsValue ds))"
  proof
    assume h: "ds \<noteq> [] \<and> list_all isDigit ds \<and> digitsValue ds < 2 ^ 53 \<and>
      isLetter c \<and> c \<noteq> CHR ''e'' \<and> c \<noteq> CHR ''E''"
    then have "toDouble (of_int (digitsValue ds)) = Fin (of_int (digitsValue ds))"
      using toDouble_exact_int [of "digitsValue ds"] digitsValue_nonneg [of ds] by blast
    with h lit show "parseFloat (ds @ c # r) = Fin (of_int (digitsValue ds))"
      by simp
  qed
  from ex lit small number_token_pushed [of t st] show ?thesis by blast
qed

text \<open>Claim C8 at the token \<open>12x\<close>, on an empty stack.\<close>

theorem numeric_prefix_token_witness:
  "\<not> isOperator ''12x'' \<and> \<not> isNaN (parseFloat ''12x'') \<and>
   ''12'' \<noteq> [] \<and> list_all isDigit ''12'' \<and> digitsValue ''12'' < 2 ^ 53 \<and>
   isLetter (CHR ''x'') \<and> CHR ''x'' \<noteq> CHR ''e'' \<and> CHR ''x'' \<noteq> CHR ''E'' \<and>
   postfixToken ''12x'' [] = Inr [parseFloat ''12x''] \<and>
   prefixToken ''12x'' [] = Inr [parseFloat ''12x''] \<and>
   parseFloat (''12'' @ CHR ''x'' # []) = toDouble (of_int (digitsValue ''12'')) \<and>
   parseFloat (''12'' @ CHR ''x'' # []) = Fin (of_int (digitsValue ''12''))"
proof -
  have h: "\<not> isOperator ''12x'' \<and> \<not> isNaN (parseFloat ''12x'') \<and>
   ''12'' \<noteq> [] \<and> list_all isDigit ''12'' \<and> digitsValue ''12'' < 2 ^ 53 \<and>
   isLetter (CHR ''x'') \<and> CHR ''x'' \<noteq> CHR ''e'' \<and> CHR ''x'' \<noteq> CHR ''E''"
    by code_simp
  from numeric_prefix_token [of "''12x''" "[]" "''12''" "CHR ''x''" "[]"] h
  show ?thesis by blast
qed


end
